theory Spec2Isabelle
  imports Complex_Main
begin

section \<open>The data model of \<open>tarski/fol.py\<close>\<close>

text \<open>
  Python values that are passed as the \<open>name\<close> of a constant and that a cast returns:
  strings, integers and finite floats. A character of a string is a code point below 256;
  a float is given by the rational number it is equal to.
\<close>

datatype pyval = PStr string | PInt int | PFloat rat

text \<open>
  The two encoders that \<open>FirstOrderLanguage\<close> hands to \<open>Interval\<close>:
  \<^verbatim>\<open>lambda x: float(x)\<close> and \<^verbatim>\<open>lambda x: int(x)\<close>.
\<close>

datatype encode_fn = EncFloat | EncInt

record Interval_part =
  lower_bound :: rat
  upper_bound :: rat
  encode :: encode_fn

text \<open>
  Modelled from the spec: the classes \<open>Sort\<close> and \<open>Interval\<close> are imported from
  \<open>tarski.syntax\<close>. A sort has a name (\<open>_name\<close>, read through \<open>name\<close>), a
  back-reference to the language that owns it (kept as the identity \<open>l_id\<close> of that
  language, since the code only compares it with \<open>is\<close> and \<open>!=\<close>), the \<open>builtin\<close> flag
  (false unless the code sets it) and, for an interval sort, the bounds and the encoder.
  Two sorts are equal when all of these agree.
\<close>

record Sort =
  sname :: string
  slanguage :: nat
  builtin :: bool
  interval :: "Interval_part option"

text \<open>
  Modelled from the spec: \<open>Predicate(name, language, *sorts)\<close>, \<open>Function(name, language,
  *sorts)\<close> and \<open>Variable(symbol, sort)\<close> of \<open>tarski.syntax\<close> keep their constructor
  arguments. A \<open>Constant\<close> has a symbol and a sort; what its constructor makes of the
  arguments is \<open>Constant_new\<close> below.
\<close>

record Predicate =
  pname :: string
  planguage :: nat
  psort :: "Sort list"

record Function =
  fname :: string
  flanguage :: nat
  fsort :: "Sort list"

record Constant =
  csymbol :: pyval
  csort :: Sort

record Variable =
  vsymbol :: string
  vsort :: Sort

text \<open>The exceptions of \<open>tarski.errors\<close> that \<open>fol.py\<close> raises, and the Python built-in ones.\<close>

datatype pyerr =
    DuplicateSortDefinition string Sort
  | DuplicatePredicateDefinition string Predicate
  | DuplicateFunctionDefinition string Function
  | DuplicateConstantDefinition pyval Constant
  | UndefinedSort string
  | UndefinedPredicate string
  | UndefinedFunction string
  | UndefinedConstant pyval
  | UndefinedElement string
  | LanguageError
  | LanguageMismatch
  | SemanticError
  | RuntimeError
  | KeyError
  | AttributeError
  | RecursionError

text \<open>
  The state of a \<open>FirstOrderLanguage\<close>. Field \<open>l_x\<close> is the attribute \<open>_x\<close> (or \<open>x\<close>) of
  the class; \<open>l_id\<close> is the identity of the instance. \<open>l_possible_promotions\<close> is a
  \<open>defaultdict(set)\<close>: a key may be absent. An operator handler takes the two operands
  and returns a value or raises. The attributes \<open>theories\<close> (an empty list that no method
  reads) and \<open>_element_containers\<close> (the fixed table from the classes to the dictionaries
  below) are no fields, and neither is the attribute \<open>pi\<close> of the sort \<open>Real\<close>.
\<close>

record 'v Language =
  l_id :: nat
  l_name :: string
  l_sorts :: "string \<rightharpoonup> Sort"
  l_sort_hierarchy :: "(string \<times> string) set"
  l_possible_promotions :: "string \<rightharpoonup> Sort set"
  l_functions :: "string \<rightharpoonup> Function"
  l_predicates :: "string \<rightharpoonup> Predicate"
  l_constants :: "pyval \<rightharpoonup> Constant"
  l_variables :: "Variable set"
  l_operators :: "(string \<times> Sort \<times> Sort) \<rightharpoonup> ('v \<Rightarrow> 'v \<Rightarrow> pyerr + 'v)"
  l_language_components_frozen :: bool

text \<open>
  An argument that stands for a sort: \<open>_retrieve_object\<close> accepts a \<open>str\<close>, a \<open>Sort\<close>,
  and rejects anything else.
\<close>

datatype sortref = ByName string | ByObject Sort | NotAnElement

text \<open>\<open>Sort(name, language)\<close>: a plain sort of the language with identity \<open>i\<close>.\<close>

abbreviation plain_sort :: "string \<Rightarrow> nat \<Rightarrow> Sort" where
  "plain_sort name i \<equiv> \<lparr>sname = name, slanguage = i, builtin = False, interval = None\<rparr>"

section \<open>Sorts and the hierarchy\<close>

definition has_sort :: "'v Language \<Rightarrow> string \<Rightarrow> bool" where
  "has_sort L name = (l_sorts L name \<noteq> None)"

definition get_sort :: "'v Language \<Rightarrow> string \<Rightarrow> pyerr + Sort" where
  "get_sort L name =
     (case l_sorts L name of None \<Rightarrow> Inl (UndefinedSort name) | Some s \<Rightarrow> Inr s)"

text \<open>The properties \<open>Object\<close>, \<open>Real\<close>, \<open>Integer\<close>, \<open>Natural\<close>: \<open>self._sorts[...]\<close>.\<close>

definition sorts_getitem :: "'v Language \<Rightarrow> string \<Rightarrow> pyerr + Sort" where
  "sorts_getitem L name = (case l_sorts L name of None \<Rightarrow> Inl KeyError | Some s \<Rightarrow> Inr s)"

definition Object_sort :: "'v Language \<Rightarrow> pyerr + Sort" where
  "Object_sort L = sorts_getitem L ''object''"

definition Real_sort :: "'v Language \<Rightarrow> pyerr + Sort" where
  "Real_sort L = sorts_getitem L ''Real''"

definition Integer_sort :: "'v Language \<Rightarrow> pyerr + Sort" where
  "Integer_sort L = sorts_getitem L ''Integer''"

definition Natural_sort :: "'v Language \<Rightarrow> pyerr + Sort" where
  "Natural_sort L = sorts_getitem L ''Natural''"

text \<open>
  The promotion set stored for a name; a missing key of the \<open>defaultdict\<close> stands for the
  empty set.
\<close>

definition promotion_set :: "'v Language \<Rightarrow> string \<Rightarrow> Sort set" where
  "promotion_set L n = (case l_possible_promotions L n of None \<Rightarrow> {} | Some S \<Rightarrow> S)"

text \<open>
  \<open>self._possible_promotions[k]\<close>: reading a missing key of a \<open>defaultdict(set)\<close> stores the
  empty set under that key and returns it.
\<close>

definition possible_promotions_getitem :: "'v Language \<Rightarrow> string \<Rightarrow> Sort set \<times> 'v Language" where
  "possible_promotions_getitem L k =
     (case l_possible_promotions L k of
        Some S \<Rightarrow> (S, L)
      | None \<Rightarrow> ({}, L\<lparr>l_possible_promotions := (l_possible_promotions L)(k \<mapsto> {})\<rparr>))"

text \<open>
  Modelled from the spec: \<open>inclusion_closure\<close> is imported from \<open>tarski.syntax\<close>. The spec
  has a sort's promotion set extended by \<open>promotion_set(p) \<union> {p}\<close> for each parent \<open>p\<close>.
  The language is the one the sort refers to, which \<open>set_parent\<close> has checked to be
  \<open>self\<close>.
\<close>

definition inclusion_closure :: "'v Language \<Rightarrow> Sort \<Rightarrow> Sort set" where
  "inclusion_closure L s = insert s (promotion_set L (sname s))"

definition set_parent :: "'v Language \<Rightarrow> Sort \<Rightarrow> Sort \<Rightarrow> (pyerr + unit) \<times> 'v Language" where
  "set_parent L lhs rhs =
     (if slanguage rhs \<noteq> l_id L then (Inl LanguageError, L)
      else
        let L1 = L\<lparr>l_sort_hierarchy := insert (sname lhs, sname rhs) (l_sort_hierarchy L)\<rparr>;
            (S, L2) = possible_promotions_getitem L1 (sname lhs)
        in (Inr (),
            L2\<lparr>l_possible_promotions :=
                 (l_possible_promotions L2)(sname lhs \<mapsto> S \<union> inclusion_closure L2 rhs)\<rparr>))"

text \<open>The loop \<open>for parent in super_sorts: self.set_parent(sort, parent)\<close>.\<close>

fun set_parents :: "'v Language \<Rightarrow> Sort \<Rightarrow> Sort list \<Rightarrow> (pyerr + unit) \<times> 'v Language" where
  "set_parents L s [] = (Inr (), L)"
| "set_parents L s (p # ps) =
     (case set_parent L s p of
        (Inl e, L') \<Rightarrow> (Inl e, L')
      | (Inr u, L') \<Rightarrow> set_parents L' s ps)"

text \<open>
  \<open>sort(name, super_sorts)\<close>, named \<open>sort_lang\<close> here; \<open>super_sorts\<close> is \<open>None\<close> or a list. The new sort is stored
  before its parents are looked at.
\<close>

definition sort_lang :: "'v Language \<Rightarrow> string \<Rightarrow> Sort list option \<Rightarrow> (pyerr + Sort) \<times> 'v Language" where
  "sort_lang L name super_sorts =
     (case l_sorts L name of
        Some existing \<Rightarrow> (Inl (DuplicateSortDefinition name existing), L)
      | None \<Rightarrow>
          (let s = plain_sort name (l_id L);
               L1 = L\<lparr>l_sorts := (l_sorts L)(name \<mapsto> s)\<rparr>
           in (case get_sort L1 ''object'' of
                 Inl e \<Rightarrow> (Inl e, L1)
               | Inr osort \<Rightarrow>
                   (let supers = (case super_sorts of None \<Rightarrow> [] | Some xs \<Rightarrow> xs);
                        supers' = (if osort \<in> set supers then supers else supers @ [osort])
                    in (case set_parents L1 s supers' of
                          (Inl e, L2) \<Rightarrow> (Inl e, L2)
                        | (Inr u, L2) \<Rightarrow> (Inr s, L2))))))"

text \<open>
  The subtype queries. \<open>is_strict_subtype\<close> reads \<open>self._possible_promotions[t._name]\<close>, so
  it returns the language as that read leaves it.
\<close>

definition is_strict_subtype :: "'v Language \<Rightarrow> Sort \<Rightarrow> Sort \<Rightarrow> bool \<times> 'v Language" where
  "is_strict_subtype L t st =
     (let (S, L') = possible_promotions_getitem L (sname t) in (st \<in> S, L'))"

definition is_subtype :: "'v Language \<Rightarrow> Sort \<Rightarrow> Sort \<Rightarrow> bool \<times> 'v Language" where
  "is_subtype L t st = (if t = st then (True, L) else is_strict_subtype L t st)"

definition are_vertically_related :: "'v Language \<Rightarrow> Sort \<Rightarrow> Sort \<Rightarrow> bool \<times> 'v Language" where
  "are_vertically_related L t1 t2 =
     (let (b, L1) = is_subtype L t1 t2 in if b then (True, L1) else is_subtype L1 t2 t1)"

section \<open>Symbols\<close>

text \<open>
  \<open>_retrieve_object(obj, Sort)\<close>, the only way the class calls it. \<open>Sort\<close> is a key of
  \<open>_element_containers\<close>, whose entry is \<open>_sorts\<close>.
\<close>

definition retrieve_object :: "'v Language \<Rightarrow> sortref \<Rightarrow> pyerr + Sort" where
  "retrieve_object L obj =
     (case obj of
        NotAnElement \<Rightarrow> Inl LanguageError
      | ByObject s \<Rightarrow> (if slanguage s \<noteq> l_id L then Inl LanguageMismatch else Inr s)
      | ByName n \<Rightarrow> (case l_sorts L n of None \<Rightarrow> Inl (UndefinedElement n) | Some s \<Rightarrow> Inr s))"

text \<open>The list comprehension \<open>[self._retrieve_object(a, Sort) for a in args]\<close>.\<close>

fun retrieve_objects :: "'v Language \<Rightarrow> sortref list \<Rightarrow> pyerr + Sort list" where
  "retrieve_objects L [] = Inr []"
| "retrieve_objects L (a # as) =
     (case retrieve_object L a of
        Inl e \<Rightarrow> Inl e
      | Inr s \<Rightarrow> (case retrieve_objects L as of Inl e \<Rightarrow> Inl e | Inr ss \<Rightarrow> Inr (s # ss)))"

definition variable :: "'v Language \<Rightarrow> string \<Rightarrow> sortref \<Rightarrow> (pyerr + Variable) \<times> 'v Language" where
  "variable L name srt =
     (case retrieve_object L srt of
        Inl e \<Rightarrow> (Inl e, L)
      | Inr s \<Rightarrow> (Inr \<lparr>vsymbol = name, vsort = s\<rparr>, L))"

text \<open>The property \<open>variables\<close> yields the elements of \<open>_variables\<close>.\<close>

definition variables :: "'v Language \<Rightarrow> Variable set" where
  "variables L = l_variables L"

text \<open>
  The builtin \<open>int\<close> that the encoder \<^verbatim>\<open>lambda x: int(x)\<close> applies. A string is read as
  Python 3 reads it: blanks at both ends are dropped, a sign may come first, then come
  decimal digits, with single underscores allowed between two digits. A float is
  truncated towards zero. \<open>None\<close> stands for the \<open>ValueError\<close> that \<open>int\<close> raises.
\<close>

definition is_digit :: "char \<Rightarrow> bool" where
  "is_digit c = (c \<in> set ''0123456789'')"

definition is_blank :: "char \<Rightarrow> bool" where
  "is_blank c = ((of_char c :: nat) \<in> {9, 10, 11, 12, 13, 32, 133, 160})"

definition strip :: "string \<Rightarrow> string" where
  "strip s = rev (dropWhile is_blank (rev (dropWhile is_blank s)))"

text \<open>
  The digits of a numeral, from the left: \<open>prev\<close> says that the character before was a
  digit, \<open>acc\<close> is the value read so far.
\<close>

fun digits_from :: "bool \<Rightarrow> nat \<Rightarrow> string \<Rightarrow> nat option" where
  "digits_from prev acc [] = (if prev then Some acc else None)"
| "digits_from prev acc (c # cs) =
     (if is_digit c then digits_from True (10 * acc + (of_char c - 48)) cs
      else if c = CHR ''_'' \<and> prev \<and> cs \<noteq> [] \<and> is_digit (hd cs) then digits_from False acc cs
      else None)"

definition int_of_string :: "string \<Rightarrow> int option" where
  "int_of_string s =
     (case strip s of
        [] \<Rightarrow> None
      | c # cs \<Rightarrow>
          (if c = CHR ''-'' then map_option (\<lambda>n. - int n) (digits_from False 0 cs)
           else if c = CHR ''+'' then map_option int (digits_from False 0 cs)
           else map_option int (digits_from False 0 (c # cs))))"

fun int_builtin :: "pyval \<Rightarrow> int option" where
  "int_builtin (PStr s) = int_of_string s"
| "int_builtin (PInt n) = Some n"
| "int_builtin (PFloat r) = Some (if 0 \<le> r then \<lfloor>r\<rfloor> else \<lceil>r\<rceil>)"

text \<open>
  What an encoder gives for a literal. The builtin \<open>float\<close> that the encoder
  \<^verbatim>\<open>lambda x: float(x)\<close> applies computes in floating point, which is not defined here:
  it is the parameter \<open>flt\<close> of this and of every function that reaches a cast, with \<open>None\<close>
  for the \<open>ValueError\<close> it raises.
\<close>

definition encode_apply :: "(pyval \<Rightarrow> pyval option) \<Rightarrow> encode_fn \<Rightarrow> pyval \<Rightarrow> pyval option" where
  "encode_apply flt enc x =
     (case enc of EncInt \<Rightarrow> map_option PInt (int_builtin x) | EncFloat \<Rightarrow> flt x)"

text \<open>The number that a value is, for the comparison with the bounds.\<close>

fun numeric :: "pyval \<Rightarrow> rat option" where
  "numeric (PStr s) = None"
| "numeric (PInt n) = Some (of_int n)"
| "numeric (PFloat r) = Some r"

text \<open>
  Modelled from the spec: the method \<open>Interval.cast\<close> of \<open>tarski.syntax\<close>. The cast applies
  the encoder of the interval to the literal; a literal that cannot be read as the target
  representation is rejected, and so is a value outside the bounds of the interval.
  \<open>None\<close> is the rejection. A sort that is no interval has no such method.
\<close>

definition within_bounds :: "Interval_part \<Rightarrow> rat \<Rightarrow> bool" where
  "within_bounds iv y = (lower_bound iv \<le> y \<and> y \<le> upper_bound iv)"

definition interval_cast :: "(pyval \<Rightarrow> pyval option) \<Rightarrow> Interval_part \<Rightarrow> pyval \<Rightarrow> pyval option" where
  "interval_cast flt iv x =
     (case encode_apply flt (encode iv) x of
        None \<Rightarrow> None
      | Some y \<Rightarrow>
          (case numeric y of
             None \<Rightarrow> None
           | Some v \<Rightarrow> (if within_bounds iv v then Some y else None)))"

definition cast :: "(pyval \<Rightarrow> pyval option) \<Rightarrow> Sort \<Rightarrow> pyval \<Rightarrow> pyerr + pyval option" where
  "cast flt s x =
     (case interval s of None \<Rightarrow> Inl AttributeError | Some iv \<Rightarrow> Inr (interval_cast flt iv x))"

text \<open>
  Modelled from the spec: the constructor \<open>Constant(symbol, sort)\<close> of \<open>tarski.syntax\<close>. A
  constant of a builtin sort is a wrapper of the value that the cast of its sort gives for
  the symbol; a constant of any other sort keeps its name.
\<close>

definition Constant_new :: "(pyval \<Rightarrow> pyval option) \<Rightarrow> pyval \<Rightarrow> Sort \<Rightarrow> Constant" where
  "Constant_new flt symbol s =
     \<lparr>csymbol =
        (if builtin s
         then (case cast flt s symbol of Inr (Some actual) \<Rightarrow> actual | _ \<Rightarrow> symbol)
         else symbol),
      csort = s\<rparr>"

text \<open>
  \<open>constant(name, sort)\<close>, named \<open>constant_lang\<close> here (and \<open>function(name, *args)\<close> below
  \<open>function_lang\<close>). The value of the cast is compared with \<open>None\<close>; the constant is built
  from the name.
\<close>

definition constant_lang ::
  "(pyval \<Rightarrow> pyval option) \<Rightarrow> 'v Language \<Rightarrow> pyval \<Rightarrow> sortref \<Rightarrow> (pyerr + Constant) \<times> 'v Language" where
  "constant_lang flt L name srt =
     (case retrieve_object L srt of
        Inl e \<Rightarrow> (Inl e, L)
      | Inr s \<Rightarrow>
          (if builtin s then
             (case cast flt s name of
                Inl e \<Rightarrow> (Inl e, L)
              | Inr None \<Rightarrow> (Inl SemanticError, L)
              | Inr (Some actual) \<Rightarrow> (Inr (Constant_new flt name s), L))
           else
             (case l_constants L name of
                Some existing \<Rightarrow> (Inl (DuplicateConstantDefinition name existing), L)
              | None \<Rightarrow>
                  (let c = Constant_new flt name s
                   in (Inr c, L\<lparr>l_constants := (l_constants L)(name \<mapsto> c)\<rparr>)))))"

definition has_constant :: "'v Language \<Rightarrow> pyval \<Rightarrow> bool" where
  "has_constant L name = (l_constants L name \<noteq> None)"

definition get_constant :: "'v Language \<Rightarrow> pyval \<Rightarrow> pyerr + Constant" where
  "get_constant L name =
     (case l_constants L name of None \<Rightarrow> Inl (UndefinedConstant name) | Some c \<Rightarrow> Inr c)"

definition predicate :: "'v Language \<Rightarrow> string \<Rightarrow> sortref list \<Rightarrow> (pyerr + Predicate) \<times> 'v Language" where
  "predicate L name args =
     (case l_predicates L name of
        Some existing \<Rightarrow> (Inl (DuplicatePredicateDefinition name existing), L)
      | None \<Rightarrow>
          (case retrieve_objects L args of
             Inl e \<Rightarrow> (Inl e, L)
           | Inr types \<Rightarrow>
               (let p = \<lparr>pname = name, planguage = l_id L, psort = types\<rparr>
                in (Inr p, L\<lparr>l_predicates := (l_predicates L)(name \<mapsto> p)\<rparr>))))"

definition has_predicate :: "'v Language \<Rightarrow> string \<Rightarrow> bool" where
  "has_predicate L name = (l_predicates L name \<noteq> None)"

definition get_predicate :: "'v Language \<Rightarrow> string \<Rightarrow> pyerr + Predicate" where
  "get_predicate L name =
     (case l_predicates L name of None \<Rightarrow> Inl (UndefinedPredicate name) | Some p \<Rightarrow> Inr p)"

definition function_lang :: "'v Language \<Rightarrow> string \<Rightarrow> sortref list \<Rightarrow> (pyerr + Function) \<times> 'v Language" where
  "function_lang L name args =
     (case l_functions L name of
        Some existing \<Rightarrow> (Inl (DuplicateFunctionDefinition name existing), L)
      | None \<Rightarrow>
          (case retrieve_objects L args of
             Inl e \<Rightarrow> (Inl e, L)
           | Inr types \<Rightarrow>
               (let f = \<lparr>fname = name, flanguage = l_id L, fsort = types\<rparr>
                in (Inr f, L\<lparr>l_functions := (l_functions L)(name \<mapsto> f)\<rparr>))))"

definition has_function :: "'v Language \<Rightarrow> string \<Rightarrow> bool" where
  "has_function L name = (l_functions L name \<noteq> None)"

definition get_function :: "'v Language \<Rightarrow> string \<Rightarrow> pyerr + Function" where
  "get_function L name =
     (case l_functions L name of None \<Rightarrow> Inl (UndefinedFunction name) | Some f \<Rightarrow> Inr f)"

section \<open>Operators\<close>

definition register_operator_handler ::
  "'v Language \<Rightarrow> string \<Rightarrow> Sort \<Rightarrow> Sort \<Rightarrow> ('v \<Rightarrow> 'v \<Rightarrow> pyerr + 'v) \<Rightarrow> 'v Language" where
  "register_operator_handler L operator t1 t2 handler =
     L\<lparr>l_operators := (l_operators L)((operator, t1, t2) \<mapsto> handler)\<rparr>"

text \<open>
  The \<open>try\<close> block covers the lookup and the call of the handler, so a \<open>KeyError\<close> of
  either becomes a \<open>LanguageError\<close>.
\<close>

definition dispatch_operator ::
  "'v Language \<Rightarrow> string \<Rightarrow> Sort \<Rightarrow> Sort \<Rightarrow> 'v \<Rightarrow> 'v \<Rightarrow> pyerr + 'v" where
  "dispatch_operator L operator t1 t2 lhs rhs =
     (case l_operators L (operator, t1, t2) of
        None \<Rightarrow> Inl LanguageError
      | Some handler \<Rightarrow>
          (case handler lhs rhs of
             Inl e \<Rightarrow> (if e = KeyError then Inl LanguageError else Inl e)
           | Inr r \<Rightarrow> Inr r))"

section \<open>Iteration\<close>

text \<open>
  The property \<open>sorts\<close> is a generator whose body iterates \<open>self.sorts\<close>, that is, a new
  generator of the same property, whose first step does the same. The first argument is
  the number of stack frames the interpreter has left; the result is what exhausting the
  generator gives.
\<close>

fun sorts :: "nat \<Rightarrow> 'v Language \<Rightarrow> pyerr + Sort list" where
  "sorts 0 L = Inl RecursionError"
| "sorts (Suc depth) L = (case sorts depth L of Inl e \<Rightarrow> Inl e | Inr ss \<Rightarrow> Inr ss)"

text \<open>
  The properties \<open>predicates\<close> and \<open>functions\<close> (\<open>functions_lang\<close> here): the values of
  the dictionaries.
\<close>

definition predicates :: "'v Language \<Rightarrow> Predicate set" where
  "predicates L = ran (l_predicates L)"

definition functions_lang :: "'v Language \<Rightarrow> Function set" where
  "functions_lang L = ran (l_functions L)"

section \<open>Construction\<close>

text \<open>The attributes as \<open>__init__\<close> sets them before it builds the builtin sorts.\<close>

definition empty_language :: "nat \<Rightarrow> string \<Rightarrow> 'v Language" where
  "empty_language i name =
     \<lparr>l_id = i, l_name = name, l_sorts = Map.empty, l_sort_hierarchy = {},
      l_possible_promotions = Map.empty, l_functions = Map.empty, l_predicates = Map.empty,
      l_constants = Map.empty, l_variables = {}, l_operators = Map.empty,
      l_language_components_frozen = False\<rparr>"

text \<open>
  The four sort objects that the language with identity \<open>i\<close> builds. The bounds of
  \<open>Real\<close> are the numbers that the floats \<^verbatim>\<open>-3.40282e+38\<close> and \<^verbatim>\<open>3.40282e+38\<close> are.
\<close>

definition the_object :: "nat \<Rightarrow> Sort" where
  "the_object i = plain_sort ''object'' i"

definition the_reals :: "nat \<Rightarrow> Sort" where
  "the_reals i =
     \<lparr>sname = ''Real'', slanguage = i, builtin = True,
      interval = Some \<lparr>lower_bound = - 340282000000000014192072600942972764160,
                        upper_bound = 340282000000000014192072600942972764160,
                        encode = EncFloat\<rparr>\<rparr>"

definition the_ints :: "nat \<Rightarrow> Sort" where
  "the_ints i =
     \<lparr>sname = ''Integer'', slanguage = i, builtin = True,
      interval = Some \<lparr>lower_bound = - (2 ^ 31 - 1), upper_bound = 2 ^ 31 - 1, encode = EncInt\<rparr>\<rparr>"

definition the_nats :: "nat \<Rightarrow> Sort" where
  "the_nats i =
     \<lparr>sname = ''Natural'', slanguage = i, builtin = True,
      interval = Some \<lparr>lower_bound = 0, upper_bound = 2 ^ 32 - 1, encode = EncInt\<rparr>\<rparr>"

definition build_the_objects :: "'v Language \<Rightarrow> (pyerr + unit) \<times> 'v Language" where
  "build_the_objects L = (Inr (), L\<lparr>l_sorts := (l_sorts L)(''object'' \<mapsto> the_object (l_id L))\<rparr>)"

definition build_the_reals :: "'v Language \<Rightarrow> (pyerr + unit) \<times> 'v Language" where
  "build_the_reals L =
     (let L1 = L\<lparr>l_sorts := (l_sorts L)(''Real'' \<mapsto> the_reals (l_id L))\<rparr>
      in (case Object_sort L1 of
            Inl e \<Rightarrow> (Inl e, L1)
          | Inr parent \<Rightarrow> set_parent L1 (the_reals (l_id L)) parent))"

definition build_the_integers :: "'v Language \<Rightarrow> (pyerr + unit) \<times> 'v Language" where
  "build_the_integers L =
     (let L1 = L\<lparr>l_sorts := (l_sorts L)(''Integer'' \<mapsto> the_ints (l_id L))\<rparr>
      in (case Real_sort L1 of
            Inl e \<Rightarrow> (Inl e, L1)
          | Inr parent \<Rightarrow> set_parent L1 (the_ints (l_id L)) parent))"

definition build_the_naturals :: "'v Language \<Rightarrow> (pyerr + unit) \<times> 'v Language" where
  "build_the_naturals L =
     (let L1 = L\<lparr>l_sorts := (l_sorts L)(''Natural'' \<mapsto> the_nats (l_id L))\<rparr>
      in (case Integer_sort L1 of
            Inl e \<Rightarrow> (Inl e, L1)
          | Inr parent \<Rightarrow> set_parent L1 (the_nats (l_id L)) parent))"

definition build_builtin_sorts :: "'v Language \<Rightarrow> (pyerr + unit) \<times> 'v Language" where
  "build_builtin_sorts L =
     (case build_the_objects L of
        (Inl e, L1) \<Rightarrow> (Inl e, L1)
      | (Inr u, L1) \<Rightarrow>
          (case build_the_reals L1 of
             (Inl e, L2) \<Rightarrow> (Inl e, L2)
           | (Inr u, L2) \<Rightarrow>
               (case build_the_integers L2 of
                  (Inl e, L3) \<Rightarrow> (Inl e, L3)
                | (Inr u, L3) \<Rightarrow> build_the_naturals L3)))"

text \<open>\<open>FirstOrderLanguage(name)\<close>, for the instance with identity \<open>i\<close>.\<close>

definition FirstOrderLanguage :: "nat \<Rightarrow> string \<Rightarrow> pyerr + 'v Language" where
  "FirstOrderLanguage i name =
     (case build_builtin_sorts (empty_language i name) of
        (Inl e, L) \<Rightarrow> Inl e
      | (Inr u, L) \<Rightarrow> Inr (L\<lparr>l_language_components_frozen := False\<rparr>))"

definition language :: "nat \<Rightarrow> string \<Rightarrow> pyerr + 'v Language" where
  "language i name = FirstOrderLanguage i name"

text \<open>
  The language that the constructor returns; \<open>language_returns\<close> below shows that the
  constructor never raises.
\<close>

definition new_language :: "nat \<Rightarrow> string \<Rightarrow> 'v Language" where
  "new_language i name = (case language i name of Inr L \<Rightarrow> L | Inl e \<Rightarrow> empty_language i name)"

section \<open>Sequences of calls\<close>

text \<open>
  The calls that can change a language, with their arguments. The three subtype queries
  are among them because they read the \<open>defaultdict\<close>; \<open>has_sort\<close>, \<open>get_sort\<close> and the
  like are functions of the state alone.
\<close>

datatype 'v call =
    Sort_call string "Sort list option"
  | Set_parent_call Sort Sort
  | Variable_call string sortref
  | Constant_call pyval sortref
  | Predicate_call string "sortref list"
  | Function_call string "sortref list"
  | Register_operator_handler_call string Sort Sort "'v \<Rightarrow> 'v \<Rightarrow> pyerr + 'v"
  | Is_strict_subtype_call Sort Sort
  | Is_subtype_call Sort Sort
  | Are_vertically_related_call Sort Sort

text \<open>
  The language after a call, whether the call returned or raised; \<open>flt\<close> is the builtin
  \<open>float\<close>, which a \<open>constant\<close> call may reach.
\<close>

fun exec :: "(pyval \<Rightarrow> pyval option) \<Rightarrow> 'v call \<Rightarrow> 'v Language \<Rightarrow> 'v Language" where
  "exec flt (Sort_call name supers) L = snd (sort_lang L name supers)"
| "exec flt (Set_parent_call lhs rhs) L = snd (set_parent L lhs rhs)"
| "exec flt (Variable_call name srt) L = snd (variable L name srt)"
| "exec flt (Constant_call name srt) L = snd (constant_lang flt L name srt)"
| "exec flt (Predicate_call name args) L = snd (predicate L name args)"
| "exec flt (Function_call name args) L = snd (function_lang L name args)"
| "exec flt (Register_operator_handler_call operator t1 t2 handler) L =
     register_operator_handler L operator t1 t2 handler"
| "exec flt (Is_strict_subtype_call t st) L = snd (is_strict_subtype L t st)"
| "exec flt (Is_subtype_call t st) L = snd (is_subtype L t st)"
| "exec flt (Are_vertically_related_call t1 t2) L = snd (are_vertically_related L t1 t2)"

definition run :: "(pyval \<Rightarrow> pyval option) \<Rightarrow> 'v call list \<Rightarrow> 'v Language \<Rightarrow> 'v Language" where
  "run flt calls L = fold (exec flt) calls L"

fun is_set_parent_call :: "'v call \<Rightarrow> bool" where
  "is_set_parent_call (Set_parent_call lhs rhs) = True"
| "is_set_parent_call c = False"

text \<open>
  A condition on a language that \<open>__init__\<close> establishes and registrations keep: the root
  sort is registered, every sort is stored under its own name, and the edges of the
  hierarchy join registered names.
\<close>

definition registered_hierarchy :: "'v Language \<Rightarrow> bool" where
  "registered_hierarchy L \<longleftrightarrow>
     has_sort L ''object'' \<and>
     (\<forall>n s. l_sorts L n = Some s \<longrightarrow> sname s = n) \<and>
     Field (l_sort_hierarchy L) \<subseteq> dom (l_sorts L)"

text \<open>
  A call that is no direct \<open>set_parent\<close> and, if it is \<open>sort(name, super_sorts)\<close>, names
  as parents only sorts that are registered in the language; and a sequence of such calls,
  each looked at in the language that the calls before it have left.
\<close>

fun registering :: "'v Language \<Rightarrow> 'v call \<Rightarrow> bool" where
  "registering L (Sort_call name supers) =
     (\<forall>p\<in>set (case supers of None \<Rightarrow> [] | Some xs \<Rightarrow> xs). l_sorts L (sname p) = Some p)"
| "registering L (Set_parent_call lhs rhs) = False"
| "registering L c = True"

fun registering_all :: "(pyval \<Rightarrow> pyval option) \<Rightarrow> 'v Language \<Rightarrow> 'v call list \<Rightarrow> bool" where
  "registering_all flt L [] = True"
| "registering_all flt L (c # cs) = (registering L c \<and> registering_all flt (exec flt c L) cs)"

text \<open>The handler of the spec's example: it adds its operands.\<close>

definition add_handler :: "int \<Rightarrow> int \<Rightarrow> pyerr + int" where
  "add_handler a b = Inr (a + b)"

section \<open>The constructor\<close>

lemmas build_defs = build_builtin_sorts_def build_the_objects_def build_the_reals_def
  build_the_integers_def build_the_naturals_def Object_sort_def Real_sort_def Integer_sort_def
  Natural_sort_def sorts_getitem_def set_parent_def possible_promotions_getitem_def
  inclusion_closure_def promotion_set_def empty_language_def the_object_def the_reals_def
  the_ints_def the_nats_def

lemma build_ok: "fst (build_builtin_sorts (empty_language i n :: 'v Language)) = Inr ()"
  by (simp add: build_defs Let_def)

lemma language_returns: "(language i n :: pyerr + 'v Language) = Inr (new_language i n)"
proof -
  obtain a b where ab: "build_builtin_sorts (empty_language i n :: 'v Language) = (a, b)"
    by (cases "build_builtin_sorts (empty_language i n :: 'v Language)")
  with build_ok[of i n, where ?'v='v] have "a = Inr ()" by simp
  with ab show ?thesis
    by (simp add: new_language_def language_def FirstOrderLanguage_def)
qed

lemma new_language_fields:
  "l_id (new_language i n) = i"
  "l_sorts (new_language i n) = [''object'' \<mapsto> the_object i, ''Real'' \<mapsto> the_reals i,
      ''Integer'' \<mapsto> the_ints i, ''Natural'' \<mapsto> the_nats i]"
  "l_sort_hierarchy (new_language i n) = {(''Real'', ''object''), (''Integer'', ''Real''), (''Natural'', ''Integer'')}"
  "l_possible_promotions (new_language i n) = [''Real'' \<mapsto> {the_object i},
      ''Integer'' \<mapsto> {the_reals i, the_object i}, ''Natural'' \<mapsto> {the_ints i, the_reals i, the_object i}]"
  "l_variables (new_language i n) = {}"
  "l_constants (new_language i n) = Map.empty"
  "l_predicates (new_language i n) = Map.empty"
  "l_functions (new_language i n) = Map.empty"
  "l_operators (new_language i n) = Map.empty"
  by (auto simp add: new_language_def language_def FirstOrderLanguage_def build_defs Let_def)

lemma getitem_promotion_set [simp]:
  "promotion_set (snd (possible_promotions_getitem L k)) n = promotion_set L n"
  "fst (possible_promotions_getitem L k) = promotion_set L k"
  by (auto simp: possible_promotions_getitem_def promotion_set_def split: option.splits)

lemma is_strict_subtype_fst: "fst (is_strict_subtype L t st) = (st \<in> promotion_set L (sname t))"
  by (simp add: is_strict_subtype_def split_beta)

lemma is_strict_subtype_promotion_set [simp]:
  "promotion_set (snd (is_strict_subtype L t st)) n = promotion_set L n"
  by (simp add: is_strict_subtype_def split_beta)

lemma is_subtype_promotion_set [simp]:
  "promotion_set (snd (is_subtype L t st)) n = promotion_set L n"
  by (simp add: is_subtype_def)

lemma are_vertically_related_promotion_set [simp]:
  "promotion_set (snd (are_vertically_related L t1 t2)) n = promotion_set L n"
  by (simp add: are_vertically_related_def split_beta)

lemma set_parent_promotion_set:
  "promotion_set (snd (set_parent L lhs rhs)) n =
     (if slanguage rhs = l_id L \<and> n = sname lhs
      then promotion_set L n \<union> insert rhs (promotion_set L (sname rhs))
      else promotion_set L n)"
  by (auto simp: set_parent_def possible_promotions_getitem_def promotion_set_def
      inclusion_closure_def Let_def split: option.splits)

lemma set_parent_result:
  "fst (set_parent L lhs rhs) = (if slanguage rhs = l_id L then Inr () else Inl LanguageError)"
  by (simp add: set_parent_def Let_def split_beta)

lemma set_parent_hierarchy:
  "l_sort_hierarchy (snd (set_parent L lhs rhs)) =
     (if slanguage rhs = l_id L then insert (sname lhs, sname rhs) (l_sort_hierarchy L)
      else l_sort_hierarchy L)"
  by (simp add: set_parent_def possible_promotions_getitem_def Let_def split: option.splits)

lemma set_parent_frame [simp]:
  "l_id (snd (set_parent L lhs rhs)) = l_id L"
  "l_name (snd (set_parent L lhs rhs)) = l_name L"
  "l_sorts (snd (set_parent L lhs rhs)) = l_sorts L"
  "l_functions (snd (set_parent L lhs rhs)) = l_functions L"
  "l_predicates (snd (set_parent L lhs rhs)) = l_predicates L"
  "l_constants (snd (set_parent L lhs rhs)) = l_constants L"
  "l_variables (snd (set_parent L lhs rhs)) = l_variables L"
  "l_operators (snd (set_parent L lhs rhs)) = l_operators L"
  by (simp_all add: set_parent_def possible_promotions_getitem_def Let_def split: option.splits)

lemma set_parents_frame:
  "l_id (snd (set_parents L s ps)) = l_id L \<and>
   l_name (snd (set_parents L s ps)) = l_name L \<and>
   l_sorts (snd (set_parents L s ps)) = l_sorts L \<and>
   l_functions (snd (set_parents L s ps)) = l_functions L \<and>
   l_predicates (snd (set_parents L s ps)) = l_predicates L \<and>
   l_constants (snd (set_parents L s ps)) = l_constants L \<and>
   l_variables (snd (set_parents L s ps)) = l_variables L \<and>
   l_operators (snd (set_parents L s ps)) = l_operators L"
proof (induction ps arbitrary: L)
  case Nil
  show ?case by simp
next
  case (Cons p ps)
  obtain r L' where sp: "set_parent L s p = (r, L')" by (cases "set_parent L s p")
  have fr: "l_id L' = l_id L" "l_name L' = l_name L" "l_sorts L' = l_sorts L"
    "l_functions L' = l_functions L" "l_predicates L' = l_predicates L"
    "l_constants L' = l_constants L" "l_variables L' = l_variables L"
    "l_operators L' = l_operators L"
    using set_parent_frame[of L s p] by (simp_all add: sp)
  show ?case
  proof (cases r)
    case (Inl e)
    then show ?thesis using fr by (simp add: sp)
  next
    case (Inr u)
    then show ?thesis using Cons.IH[of L'] fr by (simp add: sp)
  qed
qed

lemma set_parents_promotion_mono:
  "promotion_set L n \<subseteq> promotion_set (snd (set_parents L s ps)) n"
proof (induction ps arbitrary: L)
  case Nil
  show ?case by simp
next
  case (Cons p ps)
  obtain r L' where sp: "set_parent L s p = (r, L')" by (cases "set_parent L s p")
  have m: "promotion_set L n \<subseteq> promotion_set L' n"
    using set_parent_promotion_set[of L s p n] by (auto simp: sp)
  show ?case
  proof (cases r)
    case (Inl e)
    then show ?thesis using m by (simp add: sp)
  next
    case (Inr u)
    then show ?thesis using Cons.IH[of L'] m by (auto simp add: sp)
  qed
qed

lemma set_parents_promotion_other:
  "n \<noteq> sname s \<Longrightarrow> promotion_set (snd (set_parents L s ps)) n = promotion_set L n"
proof (induction ps arbitrary: L)
  case Nil
  show ?case by simp
next
  case (Cons p ps)
  obtain r L' where sp: "set_parent L s p = (r, L')" by (cases "set_parent L s p")
  have m: "promotion_set L' n = promotion_set L n"
    using set_parent_promotion_set[of L s p n] Cons.prems by (auto simp: sp)
  show ?case
  proof (cases r)
    case (Inl e)
    then show ?thesis using m by (simp add: sp)
  next
    case (Inr u)
    then show ?thesis using Cons.IH[of L'] Cons.prems m by (auto simp add: sp)
  qed
qed

section \<open>What the calls leave unchanged\<close>

lemma getitem_frame [simp]:
  "l_id (snd (possible_promotions_getitem L k)) = l_id L"
  "l_sorts (snd (possible_promotions_getitem L k)) = l_sorts L"
  "l_sort_hierarchy (snd (possible_promotions_getitem L k)) = l_sort_hierarchy L"
  "l_variables (snd (possible_promotions_getitem L k)) = l_variables L"
  by (simp_all add: possible_promotions_getitem_def split: option.splits)

lemma sort_lang_snd:
  "snd (sort_lang L name supers) =
     (case l_sorts L name of
        Some existing \<Rightarrow> L
      | None \<Rightarrow>
          (let s = plain_sort name (l_id L);
               L1 = L\<lparr>l_sorts := (l_sorts L)(name \<mapsto> s)\<rparr>
           in (case get_sort L1 ''object'' of
                 Inl e \<Rightarrow> L1
               | Inr osort \<Rightarrow>
                   snd (set_parents L1 s
                     (if osort \<in> set (case supers of None \<Rightarrow> [] | Some xs \<Rightarrow> xs)
                      then (case supers of None \<Rightarrow> [] | Some xs \<Rightarrow> xs)
                      else (case supers of None \<Rightarrow> [] | Some xs \<Rightarrow> xs) @ [osort])))))"
  by (simp add: sort_lang_def Let_def split: option.splits sum.splits prod.splits)

lemma sort_lang_frame:
  "l_id (snd (sort_lang L name supers)) = l_id L"
  "l_variables (snd (sort_lang L name supers)) = l_variables L"
  by (simp_all add: sort_lang_snd Let_def set_parents_frame del: set_parents.simps
      split: option.splits sum.splits)

lemma sort_lang_sorts:
  "l_sorts (snd (sort_lang L name supers)) =
     (case l_sorts L name of
        Some existing \<Rightarrow> l_sorts L
      | None \<Rightarrow> (l_sorts L)(name \<mapsto> plain_sort name (l_id L)))"
  by (simp add: sort_lang_snd Let_def set_parents_frame del: set_parents.simps
      split: option.splits sum.splits)

lemma exec_variables: "l_variables (exec flt c L) = l_variables L"
  by (cases c)
     (simp_all add: sort_lang_frame variable_def constant_lang_def predicate_def
       function_lang_def register_operator_handler_def is_strict_subtype_def is_subtype_def
       are_vertically_related_def split_beta Let_def
       split: sum.splits option.splits)

lemma exec_id: "l_id (exec flt c L) = l_id L"
  by (cases c)
     (simp_all add: sort_lang_frame variable_def constant_lang_def predicate_def
       function_lang_def register_operator_handler_def is_strict_subtype_def is_subtype_def
       are_vertically_related_def split_beta Let_def
       split: sum.splits option.splits)

lemma run_variables: "l_variables (run flt calls L) = l_variables L"
  unfolding run_def by (induction calls arbitrary: L) (simp_all add: exec_variables)

lemma run_id: "l_id (run flt calls L) = l_id L"
  unfolding run_def by (induction calls arbitrary: L) (simp_all add: exec_id)

section \<open>Promotion sets along calls\<close>

lemma promotion_set_update [simp]:
  "promotion_set (L\<lparr>l_sorts := a\<rparr>) n = promotion_set L n"
  "promotion_set (L\<lparr>l_constants := b\<rparr>) n = promotion_set L n"
  "promotion_set (L\<lparr>l_predicates := c\<rparr>) n = promotion_set L n"
  "promotion_set (L\<lparr>l_functions := d\<rparr>) n = promotion_set L n"
  "promotion_set (L\<lparr>l_operators := e\<rparr>) n = promotion_set L n"
  by (simp_all add: promotion_set_def)

lemma sort_lang_promotion_mono:
  "promotion_set L n \<subseteq> promotion_set (snd (sort_lang L name supers)) n"
proof (cases "l_sorts L name")
  case (Some existing)
  then show ?thesis by (simp add: sort_lang_snd)
next
  case None
  let ?s = "plain_sort name (l_id L)"
  let ?L1 = "L\<lparr>l_sorts := (l_sorts L)(name \<mapsto> ?s)\<rparr>"
  have "promotion_set L n \<subseteq> promotion_set (snd (set_parents ?L1 ?s ps)) n" for ps
    using set_parents_promotion_mono [of ?L1 n ?s ps] by simp
  with None show ?thesis
    by (simp add: sort_lang_snd Let_def del: set_parents.simps split: sum.splits)
qed

lemma sort_lang_promotion_other:
  assumes "l_sorts L n \<noteq> None"
  shows "promotion_set (snd (sort_lang L name supers)) n = promotion_set L n"
proof (cases "l_sorts L name")
  case (Some existing)
  then show ?thesis by (simp add: sort_lang_snd)
next
  case None
  with assms have ne: "n \<noteq> name" by auto
  let ?s = "plain_sort name (l_id L)"
  let ?L1 = "L\<lparr>l_sorts := (l_sorts L)(name \<mapsto> ?s)\<rparr>"
  have "promotion_set (snd (set_parents ?L1 ?s ps)) n = promotion_set L n" for ps
    using set_parents_promotion_other [of n ?s ?L1 ps] ne by simp
  with None show ?thesis
    by (simp add: sort_lang_snd Let_def del: set_parents.simps split: sum.splits)
qed

lemma exec_promotion_mono: "promotion_set L n \<subseteq> promotion_set (exec flt c L) n"
proof (cases c)
  case (Sort_call name supers)
  then show ?thesis using sort_lang_promotion_mono [of L n name supers] by simp
next
  case (Set_parent_call lhs rhs)
  then show ?thesis by (auto simp: set_parent_promotion_set)
qed (simp_all add: variable_def constant_lang_def predicate_def function_lang_def
      register_operator_handler_def Let_def split: sum.splits option.splits)

lemma exec_promotion_registered:
  assumes "\<not> is_set_parent_call c" and "l_sorts L n \<noteq> None"
  shows "promotion_set (exec flt c L) n = promotion_set L n"
proof (cases c)
  case (Sort_call name supers)
  then show ?thesis using sort_lang_promotion_other [OF assms(2), of name supers] by simp
next
  case (Set_parent_call lhs rhs)
  with assms(1) show ?thesis by simp
qed (simp_all add: variable_def constant_lang_def predicate_def function_lang_def
      register_operator_handler_def Let_def split: sum.splits option.splits)

lemma exec_sorts_kept:
  assumes "l_sorts L n = Some s"
  shows "l_sorts (exec flt c L) n = Some s"
proof (cases c)
  case (Sort_call name supers)
  then show ?thesis using assms by (auto simp: sort_lang_sorts split: option.splits)
qed (simp_all add: assms variable_def constant_lang_def predicate_def function_lang_def
      register_operator_handler_def is_strict_subtype_def is_subtype_def
      are_vertically_related_def split_beta Let_def split: sum.splits option.splits)

lemma run_promotion_mono: "promotion_set L n \<subseteq> promotion_set (run flt calls L) n"
  unfolding run_def
proof (induction calls arbitrary: L)
  case Nil
  show ?case by simp
next
  case (Cons c calls)
  show ?case using exec_promotion_mono [of L n flt c] Cons.IH [of "exec flt c L"] by auto
qed

lemma run_sorts_kept: "l_sorts L n = Some s \<Longrightarrow> l_sorts (run flt calls L) n = Some s"
  unfolding run_def
  by (induction calls arbitrary: L) (simp_all add: exec_sorts_kept)

lemma run_promotion_registered:
  "\<not> list_ex is_set_parent_call calls \<Longrightarrow> l_sorts L n = Some s \<Longrightarrow>
     promotion_set (run flt calls L) n = promotion_set L n"
  unfolding run_def
proof (induction calls arbitrary: L)
  case Nil
  show ?case by simp
next
  case (Cons c calls)
  have "promotion_set (exec flt c L) n = promotion_set L n"
    using exec_promotion_registered [of c L n] Cons.prems by simp
  moreover have "l_sorts (exec flt c L) n = Some s"
    using exec_sorts_kept Cons.prems by blast
  ultimately show ?case using Cons.IH [of "exec flt c L"] Cons.prems by simp
qed

section \<open>Variables\<close>

text \<open>
  C10. \<open>variable(name, sort)\<close> leaves the language as it was and, for a sort of this
  language given as an object or by its registered name, returns the variable of that
  name and sort. No call adds to \<open>_variables\<close>: after any sequence of calls on a new
  language the property \<open>variables\<close> yields nothing.
\<close>

theorem variable_never_stored:
  "snd (variable L name srt) = L \<and>
   (slanguage s = l_id L \<longrightarrow>
      fst (variable L name (ByObject s)) = Inr \<lparr>vsymbol = name, vsort = s\<rparr>) \<and>
   (l_sorts L n = Some s \<longrightarrow>
      fst (variable L name (ByName n)) = Inr \<lparr>vsymbol = name, vsort = s\<rparr>) \<and>
   variables (run flt calls (new_language i nm)) = {}"
  by (simp add: variable_def retrieve_object_def variables_def run_variables new_language_fields
      split: sum.splits)

theorem variable_never_stored_witness:
  "\<forall>flt.
     fst (variable (new_language 1 ''L'' :: int Language) ''x'' (ByObject (the_ints 1)))
       = Inr \<lparr>vsymbol = ''x'', vsort = the_ints 1\<rparr> \<and>
     fst (variable (new_language 1 ''L'' :: int Language) ''x'' (ByName ''Integer''))
       = Inr \<lparr>vsymbol = ''x'', vsort = the_ints 1\<rparr> \<and>
     variables (run flt [Variable_call ''x'' (ByName ''Integer''),
                   Variable_call ''y'' (ByObject (the_reals 1)),
                   Sort_call ''block'' None, Variable_call ''z'' (ByName ''block'')]
                (new_language 1 ''L'' :: int Language)) = {}"
  (is "\<forall>flt. ?P flt")
proof
  fix flt :: "pyval \<Rightarrow> pyval option"
  have h1: "slanguage (the_ints 1) = l_id (new_language 1 ''L'' :: int Language)"
    by (simp add: new_language_fields the_ints_def)
  have h2: "l_sorts (new_language 1 ''L'' :: int Language) ''Integer'' = Some (the_ints 1)"
    by (simp add: new_language_fields)
  from h1 h2 show "?P flt"
    using variable_never_stored [of "new_language 1 ''L'' :: int Language" "''x''"
      "ByObject (the_ints 1)" "the_ints 1" "''Integer''" flt
      "[Variable_call ''x'' (ByName ''Integer''), Variable_call ''y'' (ByObject (the_reals 1)),
        Sort_call ''block'' None, Variable_call ''z'' (ByName ''block'')]" 1 "''L''"]
    by blast
qed

section \<open>Iteration over the sorts\<close>

text \<open>
  C6. The claim is that iterating the property \<open>sorts\<close> terminates and yields the
  registered sorts. In the code the generator iterates itself: whatever the stack depth
  and the language, exhausting it ends in \<open>RecursionError\<close> and yields no sort.
\<close>

theorem sorts_recursion_error: "sorts depth L = Inl RecursionError"
  by (induction depth) simp_all

section \<open>Operator dispatch\<close>

text \<open>
  C7. \<open>dispatch_operator\<close> applies the handler stored under exactly the triple
  \<open>(operator, t1, t2)\<close> and returns what the handler returns, also right after
  \<open>register_operator_handler\<close> has stored it; when nothing is stored under that triple it
  raises \<open>LanguageError\<close>, whatever is stored under other triples.
\<close>

theorem dispatch_operator_exact:
  "(l_operators L (operator, t1, t2) = Some handler \<longrightarrow> handler lhs rhs = Inr r \<longrightarrow>
      dispatch_operator L operator t1 t2 lhs rhs = Inr r) \<and>
   (handler lhs rhs = Inr r \<longrightarrow>
      dispatch_operator (register_operator_handler L operator t1 t2 handler) operator t1 t2 lhs rhs
        = Inr r) \<and>
   (l_operators L (operator, t1, t2) = None \<longrightarrow>
      dispatch_operator L operator t1 t2 lhs rhs = Inl LanguageError)"
  by (simp add: dispatch_operator_def register_operator_handler_def)

text \<open>
  The example of the spec: with addition registered for \<open>(Integer, Integer)\<close> only,
  \<open>2 + 3\<close> dispatches to \<open>5\<close> and the pair \<open>(Integer, Real)\<close> raises, although
  \<open>Integer\<close> is a strict subtype of \<open>Real\<close>.
\<close>

theorem dispatch_operator_exact_witness:
  "dispatch_operator
     (register_operator_handler (new_language 1 ''L'') ''+'' (the_ints 1) (the_ints 1) add_handler)
     ''+'' (the_ints 1) (the_ints 1) 2 3 = Inr 5 \<and>
   dispatch_operator
     (register_operator_handler (new_language 1 ''L'') ''+'' (the_ints 1) (the_ints 1) add_handler)
     ''+'' (the_ints 1) (the_reals 1) 2 3 = Inl LanguageError \<and>
   fst (is_strict_subtype
     (register_operator_handler (new_language 1 ''L'') ''+'' (the_ints 1) (the_ints 1) add_handler)
     (the_ints 1) (the_reals 1))"
  using dispatch_operator_exact [of "new_language 1 ''L''" "''+''" "the_ints 1" "the_ints 1"
      add_handler 2 3 5]
    dispatch_operator_exact [of
      "register_operator_handler (new_language 1 ''L'') ''+'' (the_ints 1) (the_ints 1) add_handler"
      "''+''" "the_ints 1" "the_reals 1" add_handler 2 3 5]
  by (simp add: add_handler_def register_operator_handler_def new_language_fields
      is_strict_subtype_fst promotion_set_def the_ints_def the_reals_def)

section \<open>The builtin chain\<close>

lemma new_language_promotion_sets:
  "promotion_set (new_language i nm) ''object'' = {}"
  "promotion_set (new_language i nm) ''Real'' = {the_object i}"
  "promotion_set (new_language i nm) ''Integer'' = {the_reals i, the_object i}"
  "promotion_set (new_language i nm) ''Natural'' = {the_ints i, the_reals i, the_object i}"
  by (simp_all add: promotion_set_def new_language_fields)

lemma builtin_names [simp]:
  "sname (the_object i) = ''object''" "sname (the_reals i) = ''Real''"
  "sname (the_ints i) = ''Integer''" "sname (the_nats i) = ''Natural''"
  by (simp_all add: the_object_def the_reals_def the_ints_def the_nats_def)

text \<open>
  C9, as amended. On a new language and after any sequence of calls, \<open>is_strict_subtype\<close>
  holds for \<open>(Natural, Integer)\<close>, \<open>(Integer, Real)\<close>, \<open>(Real, Object)\<close> and the
  transitive pairs \<open>(Natural, Real)\<close>, \<open>(Natural, Object)\<close>, \<open>(Integer, Object)\<close>;
  \<open>is_strict_subtype(Object, Natural)\<close> is false on a new language and after any
  sequence of calls none of which is a direct \<open>set_parent\<close>.
\<close>

theorem builtin_chain:
  "fst (is_strict_subtype (run flt calls (new_language i nm)) (the_nats i) (the_ints i)) \<and>
   fst (is_strict_subtype (run flt calls (new_language i nm)) (the_ints i) (the_reals i)) \<and>
   fst (is_strict_subtype (run flt calls (new_language i nm)) (the_reals i) (the_object i)) \<and>
   fst (is_strict_subtype (run flt calls (new_language i nm)) (the_nats i) (the_reals i)) \<and>
   fst (is_strict_subtype (run flt calls (new_language i nm)) (the_nats i) (the_object i)) \<and>
   fst (is_strict_subtype (run flt calls (new_language i nm)) (the_ints i) (the_object i)) \<and>
   \<not> fst (is_strict_subtype (new_language i nm) (the_object i) (the_nats i)) \<and>
   (\<not> list_ex is_set_parent_call calls \<longrightarrow>
      \<not> fst (is_strict_subtype (run flt calls (new_language i nm)) (the_object i) (the_nats i)))"
proof -
  let ?L = "new_language i nm :: 'a Language"
  have m: "promotion_set ?L n \<subseteq> promotion_set (run flt calls ?L) n" for n
    by (rule run_promotion_mono)
  have ob: "l_sorts ?L ''object'' = Some (the_object i)"
    by (simp add: new_language_fields)
  have neg: "\<not> list_ex is_set_parent_call calls \<Longrightarrow>
      promotion_set (run flt calls ?L) ''object'' = {}"
    using run_promotion_registered [of calls ?L "''object''" "the_object i"] ob
    by (simp add: new_language_promotion_sets)
  show ?thesis
    using m [of "''Natural''"] m [of "''Integer''"] m [of "''Real''"] neg
    by (auto simp: is_strict_subtype_fst new_language_promotion_sets)
qed

theorem builtin_chain_witness:
  "\<forall>flt.
     fst (is_strict_subtype
       (run flt [Sort_call ''block'' None, Set_parent_call (the_object 1) (the_nats 1)]
          (new_language 1 ''L'' :: int Language)) (the_nats 1) (the_object 1)) \<and>
     \<not> fst (is_strict_subtype
       (run flt [Sort_call ''block'' None, Is_subtype_call (the_object 1) (the_nats 1)]
          (new_language 1 ''L'' :: int Language)) (the_object 1) (the_nats 1))"
  (is "\<forall>flt. ?P flt")
proof
  fix flt :: "pyval \<Rightarrow> pyval option"
  have h: "\<not> list_ex is_set_parent_call
      [Sort_call ''block'' None, Is_subtype_call (the_object 1) (the_nats 1) :: int call]"
    by simp
  from h show "?P flt"
    using builtin_chain [of flt "[Sort_call ''block'' None,
          Set_parent_call (the_object 1) (the_nats 1) :: int call]" 1 "''L''"]
      builtin_chain [of flt "[Sort_call ''block'' None,
          Is_subtype_call (the_object 1) (the_nats 1) :: int call]" 1 "''L''"]
    by blast
qed

text \<open>
  C9 as stated fails: \<open>set_parent(Object, Natural)\<close> on a new language returns, and
  afterwards \<open>is_strict_subtype(Object, Natural)\<close> is true.
\<close>

theorem builtin_chain_counterexample:
  "fst (set_parent (new_language 1 ''L'' :: int Language) (the_object 1) (the_nats 1)) = Inr () \<and>
   fst (is_strict_subtype
     (snd (set_parent (new_language 1 ''L'' :: int Language) (the_object 1) (the_nats 1)))
     (the_object 1) (the_nats 1))"
  by (simp add: is_strict_subtype_fst set_parent_promotion_set set_parent_result
      new_language_fields the_nats_def)

section \<open>The calls on concrete languages\<close>

lemmas eval_defs = sort_lang_def get_sort_def new_language_fields Let_def set_parent_def
  possible_promotions_getitem_def inclusion_closure_def promotion_set_def the_reals_def
  the_object_def the_ints_def the_nats_def has_sort_def run_def is_strict_subtype_def
  is_subtype_def

text \<open>
  C1. The claim is that a failed registration leaves the language as it was. In language
  1, \<open>sort("a", [Real, r])\<close> with \<open>r\<close> the \<open>Real\<close> of language 2 raises \<open>LanguageError\<close>,
  and afterwards \<open>a\<close> is a registered sort, \<open>(a, Real)\<close> is an edge of the hierarchy and
  \<open>a\<close> has a promotion set: the sort is stored, and the parents before the foreign one
  are set, before the foreign parent is met.
\<close>

theorem sort_failure_keeps_insertions:
  "fst (sort_lang (new_language 1 ''L'' :: int Language) ''a'' (Some [the_reals 1, the_reals 2]))
     = Inl LanguageError \<and>
   \<not> has_sort (new_language 1 ''L'' :: int Language) ''a'' \<and>
   has_sort (snd (sort_lang (new_language 1 ''L'' :: int Language) ''a''
     (Some [the_reals 1, the_reals 2]))) ''a'' \<and>
   (''a'', ''Real'') \<notin> l_sort_hierarchy (new_language 1 ''L'' :: int Language) \<and>
   (''a'', ''Real'') \<in> l_sort_hierarchy (snd (sort_lang (new_language 1 ''L'' :: int Language) ''a''
     (Some [the_reals 1, the_reals 2]))) \<and>
   l_possible_promotions (new_language 1 ''L'' :: int Language) ''a'' = None \<and>
   l_possible_promotions (snd (sort_lang (new_language 1 ''L'' :: int Language) ''a''
     (Some [the_reals 1, the_reals 2]))) ''a'' = Some {the_reals 1, the_object 1}"
  by (simp add: eval_defs)

text \<open>
  C8. The claim is that the promotion set of every sort other than the root contains
  \<open>Object\<close>. After \<open>sort("a", [r])\<close> has raised in language 1, with \<open>r\<close> the \<open>Real\<close> of
  language 2, \<open>a\<close> is registered, it is not the root, its promotion set does not
  contain \<open>Object\<close> and \<open>is_subtype(a, Object)\<close> is false.
\<close>

theorem failed_sort_lacks_object:
  "fst (sort_lang (new_language 1 ''L'' :: int Language) ''a'' (Some [the_reals 2]))
     = Inl LanguageError \<and>
   get_sort (snd (sort_lang (new_language 1 ''L'' :: int Language) ''a'' (Some [the_reals 2]))) ''a''
     = Inr (plain_sort ''a'' 1) \<and>
   Object_sort (snd (sort_lang (new_language 1 ''L'' :: int Language) ''a'' (Some [the_reals 2])))
     = Inr (the_object 1) \<and>
   plain_sort ''a'' 1 \<noteq> the_object 1 \<and>
   the_object 1 \<notin> promotion_set
     (snd (sort_lang (new_language 1 ''L'' :: int Language) ''a'' (Some [the_reals 2]))) ''a'' \<and>
   \<not> fst (is_subtype
     (snd (sort_lang (new_language 1 ''L'' :: int Language) ''a'' (Some [the_reals 2])))
     (plain_sort ''a'' 1) (the_object 1))"
  by (simp add: eval_defs Object_sort_def sorts_getitem_def)

text \<open>
  C5. The claim is that the queries leave the whole state unchanged, the promotions
  table included. On a new language the table has no key \<open>object\<close>; after
  \<open>is_strict_subtype(Object, Natural)\<close> it has that key, with the empty set.
\<close>

theorem query_writes_promotions:
  "l_possible_promotions (new_language 1 ''L'' :: int Language) ''object'' = None \<and>
   l_possible_promotions
     (snd (is_strict_subtype (new_language 1 ''L'' :: int Language) (the_object 1) (the_nats 1)))
     ''object'' = Some {} \<and>
   snd (is_strict_subtype (new_language 1 ''L'' :: int Language) (the_object 1) (the_nats 1))
     \<noteq> new_language 1 ''L''"
proof -
  have a: "l_possible_promotions (new_language 1 ''L'' :: int Language) ''object'' = None"
    by (simp add: new_language_fields)
  have b: "l_possible_promotions
     (snd (is_strict_subtype (new_language 1 ''L'' :: int Language) (the_object 1) (the_nats 1)))
     ''object'' = Some {}"
    by (simp add: eval_defs)
  from a b show ?thesis by auto
qed

text \<open>
  C3. The claim is that a promotion set always holds the sorts reachable along the
  edges. After \<open>sort("a")\<close>, \<open>sort("b", [a])\<close>, \<open>sort("c")\<close> and \<open>set_parent(a, c)\<close> the
  edges \<open>(b, a)\<close> and \<open>(a, c)\<close> are in the hierarchy and \<open>c\<close> is a strict supertype of
  \<open>a\<close>, but the promotion set of \<open>b\<close> is still \<open>{a, Object}\<close> and
  \<open>is_strict_subtype(b, c)\<close> is false.
\<close>

theorem stale_promotions:
  "(''b'', ''a'') \<in> l_sort_hierarchy
     (run flt [Sort_call ''a'' None, Sort_call ''b'' (Some [plain_sort ''a'' 1]), Sort_call ''c'' None,
           Set_parent_call (plain_sort ''a'' 1) (plain_sort ''c'' 1)]
        (new_language 1 ''L'' :: int Language)) \<and>
   (''a'', ''c'') \<in> l_sort_hierarchy
     (run flt [Sort_call ''a'' None, Sort_call ''b'' (Some [plain_sort ''a'' 1]), Sort_call ''c'' None,
           Set_parent_call (plain_sort ''a'' 1) (plain_sort ''c'' 1)]
        (new_language 1 ''L'' :: int Language)) \<and>
   promotion_set
     (run flt [Sort_call ''a'' None, Sort_call ''b'' (Some [plain_sort ''a'' 1]), Sort_call ''c'' None,
           Set_parent_call (plain_sort ''a'' 1) (plain_sort ''c'' 1)]
        (new_language 1 ''L'' :: int Language)) ''b'' = {plain_sort ''a'' 1, the_object 1} \<and>
   fst (is_strict_subtype
     (run flt [Sort_call ''a'' None, Sort_call ''b'' (Some [plain_sort ''a'' 1]), Sort_call ''c'' None,
           Set_parent_call (plain_sort ''a'' 1) (plain_sort ''c'' 1)]
        (new_language 1 ''L'' :: int Language)) (plain_sort ''a'' 1) (plain_sort ''c'' 1)) \<and>
   \<not> fst (is_strict_subtype
     (run flt [Sort_call ''a'' None, Sort_call ''b'' (Some [plain_sort ''a'' 1]), Sort_call ''c'' None,
           Set_parent_call (plain_sort ''a'' 1) (plain_sort ''c'' 1)]
        (new_language 1 ''L'' :: int Language)) (plain_sort ''b'' 1) (plain_sort ''c'' 1))"
  by (auto simp add: eval_defs)

section \<open>Constants of builtin sorts\<close>












section \<open>Cycles in the hierarchy\<close>

lemma trancl_fresh_source:
  assumes "name \<notin> Range E" and "name \<notin> P" and "(a, b) \<in> (E \<union> {name} \<times> P)\<^sup>+"
  shows "(a, b) \<in> E\<^sup>+ \<or> a = name"
  using assms(3)
proof (induction rule: trancl_induct)
  case (base y)
  then show ?case by auto
next
  case (step y z)
  show ?case
  proof (cases "a = name")
    case True
    then show ?thesis by simp
  next
    case False
    with step.IH have ay: "(a, y) \<in> E\<^sup>+" by simp
    then have "y \<in> Range E" by (metis Range_iff trancl.cases)
    with assms(1) have "y \<noteq> name" by auto
    with step.hyps(2) have "(y, z) \<in> E" by auto
    with ay show ?thesis by auto
  qed
qed

lemma acyclic_fresh_source:
  assumes ac: "acyclic E" and fr: "name \<notin> Field E" and np: "name \<notin> P"
  shows "acyclic (E \<union> {name} \<times> P)"
proof (rule acyclicI, rule allI, rule notI)
  fix x
  assume xx: "(x, x) \<in> (E \<union> {name} \<times> P)\<^sup>+"
  from fr have nr: "name \<notin> Range E" by (auto simp: Field_def)
  from trancl_fresh_source [OF nr np xx] ac have xn: "x = name"
    by (auto simp: acyclic_def)
  from xx have "x \<in> Range (E \<union> {name} \<times> P)"
    by (metis Range_iff trancl.cases)
  with xn nr np show False by auto
qed

lemma set_parents_hierarchy:
  "l_sort_hierarchy (snd (set_parents L s ps))
     \<subseteq> l_sort_hierarchy L \<union> {sname s} \<times> sname ` set ps"
proof (induction ps arbitrary: L)
  case Nil
  show ?case by simp
next
  case (Cons p ps)
  obtain r L' where sp: "set_parent L s p = (r, L')" by (cases "set_parent L s p")
  have h: "l_sort_hierarchy L' \<subseteq> insert (sname s, sname p) (l_sort_hierarchy L)"
    using set_parent_hierarchy [of L s p] by (auto simp: sp split: if_splits)
  show ?case
  proof (cases r)
    case (Inl e)
    then show ?thesis using h by (auto simp: sp)
  next
    case (Inr u)
    then show ?thesis using Cons.IH [of L'] h by (auto simp: sp)
  qed
qed

lemma set_parents_hierarchy_mono:
  "l_sort_hierarchy L \<subseteq> l_sort_hierarchy (snd (set_parents L s ps))"
proof (induction ps arbitrary: L)
  case Nil
  show ?case by simp
next
  case (Cons p ps)
  obtain r L' where sp: "set_parent L s p = (r, L')" by (cases "set_parent L s p")
  have h: "l_sort_hierarchy L \<subseteq> l_sort_hierarchy L'"
    using set_parent_hierarchy [of L s p] by (auto simp: sp split: if_splits)
  show ?case
  proof (cases r)
    case (Inl e)
    then show ?thesis using h by (auto simp: sp)
  next
    case (Inr u)
    then show ?thesis using Cons.IH [of L'] h by (auto simp: sp)
  qed
qed

lemma sort_lang_hierarchy:
  assumes reg: "registered_hierarchy L"
    and ps: "\<forall>p\<in>set (case supers of None \<Rightarrow> [] | Some xs \<Rightarrow> xs). l_sorts L (sname p) = Some p"
    and fresh: "l_sorts L name = None"
  shows "l_sort_hierarchy L \<subseteq> l_sort_hierarchy (snd (sort_lang L name supers)) \<and>
         (\<exists>P. name \<notin> P \<and> P \<subseteq> dom (l_sorts L) \<and>
            l_sort_hierarchy (snd (sort_lang L name supers)) \<subseteq> l_sort_hierarchy L \<union> {name} \<times> P)"
proof -
  let ?xs = "case supers of None \<Rightarrow> [] | Some xs \<Rightarrow> xs"
  let ?s = "plain_sort name (l_id L)"
  let ?L1 = "L\<lparr>l_sorts := (l_sorts L)(name \<mapsto> ?s)\<rparr>"
  from reg obtain ob where ob: "l_sorts L ''object'' = Some ob" and obn: "sname ob = ''object''"
    by (auto simp: registered_hierarchy_def has_sort_def)
  from fresh ob have ne: "name \<noteq> ''object''" by auto
  let ?ys = "if ob \<in> set ?xs then ?xs else ?xs @ [ob]"
  have snd_eq: "snd (sort_lang L name supers) = snd (set_parents ?L1 ?s ?ys)"
    using fresh ob ne
    by (simp add: sort_lang_snd get_sort_def Let_def del: set_parents.simps)
  have all: "\<forall>p\<in>set ?ys. l_sorts L (sname p) = Some p"
    using ps ob obn by auto
  let ?P = "sname ` set ?ys"
  have "name \<notin> ?P" using all fresh by force
  moreover have "?P \<subseteq> dom (l_sorts L)" using all by force
  moreover have "l_sort_hierarchy (snd (sort_lang L name supers))
      \<subseteq> l_sort_hierarchy L \<union> {name} \<times> ?P"
    unfolding snd_eq using set_parents_hierarchy [of ?L1 ?s ?ys] by simp
  moreover have "l_sort_hierarchy L \<subseteq> l_sort_hierarchy (snd (sort_lang L name supers))"
    unfolding snd_eq using set_parents_hierarchy_mono [of ?L1 ?s ?ys] by simp
  ultimately show ?thesis by blast
qed

lemma sort_lang_keeps_acyclic:
  assumes reg: "registered_hierarchy L"
    and ac: "acyclic (l_sort_hierarchy L)"
    and ps: "\<forall>p\<in>set (case supers of None \<Rightarrow> [] | Some xs \<Rightarrow> xs). l_sorts L (sname p) = Some p"
  shows "acyclic (l_sort_hierarchy (snd (sort_lang L name supers))) \<and>
         registered_hierarchy (snd (sort_lang L name supers))"
proof (cases "l_sorts L name")
  case (Some existing)
  then show ?thesis using reg ac by (simp add: sort_lang_snd)
next
  case None
  from sort_lang_hierarchy [OF reg ps None] obtain P where
    np: "name \<notin> P" and pd: "P \<subseteq> dom (l_sorts L)" and
    sub: "l_sort_hierarchy (snd (sort_lang L name supers)) \<subseteq> l_sort_hierarchy L \<union> {name} \<times> P"
    by blast
  from reg None have nf: "name \<notin> Field (l_sort_hierarchy L)"
    by (auto simp: registered_hierarchy_def)
  have a: "acyclic (l_sort_hierarchy (snd (sort_lang L name supers)))"
    using acyclic_fresh_source [OF ac nf np] sub by (rule acyclic_subset)
  have srt: "l_sorts (snd (sort_lang L name supers))
      = (l_sorts L)(name \<mapsto> plain_sort name (l_id L))"
    using None by (simp add: sort_lang_sorts)
  have "Field (l_sort_hierarchy (snd (sort_lang L name supers)))
      \<subseteq> Field (l_sort_hierarchy L) \<union> insert name P"
    using sub by (auto simp: Field_def)
  then have f: "Field (l_sort_hierarchy (snd (sort_lang L name supers)))
      \<subseteq> dom (l_sorts (snd (sort_lang L name supers)))"
    using reg pd unfolding srt by (auto simp: registered_hierarchy_def)
  have "registered_hierarchy (snd (sort_lang L name supers))"
    unfolding registered_hierarchy_def has_sort_def
    using reg f unfolding srt by (auto simp: registered_hierarchy_def has_sort_def)
  with a show ?thesis by simp
qed

lemma new_language_registered: "registered_hierarchy (new_language i nm)"
  by (auto simp: registered_hierarchy_def has_sort_def new_language_fields Field_def
      the_object_def the_reals_def the_ints_def the_nats_def)

lemma new_language_acyclic: "acyclic (l_sort_hierarchy (new_language i nm))"
proof -
  have a1: "acyclic ({} \<union> {''Real''} \<times> {''object''})"
    by (rule acyclic_fresh_source) (simp_all add: Field_def acyclic_def)
  have a2: "acyclic (({} \<union> {''Real''} \<times> {''object''}) \<union> {''Integer''} \<times> {''Real''})"
    by (rule acyclic_fresh_source [OF a1]) (simp_all add: Field_def)
  have a3: "acyclic ((({} \<union> {''Real''} \<times> {''object''}) \<union> {''Integer''} \<times> {''Real''})
      \<union> {''Natural''} \<times> {''Integer''})"
    by (rule acyclic_fresh_source [OF a2]) (simp_all add: Field_def)
  have h: "l_sort_hierarchy (new_language i nm) =
      ((({} \<union> {''Real''} \<times> {''object''}) \<union> {''Integer''} \<times> {''Real''})
      \<union> {''Natural''} \<times> {''Integer''})"
    by (auto simp: new_language_fields)
  show ?thesis unfolding h by (rule a3)
qed

lemma exec_keeps_hierarchy:
  assumes "\<not> is_set_parent_call c" and "\<forall>name supers. c \<noteq> Sort_call name supers"
  shows "l_sort_hierarchy (exec flt c L) = l_sort_hierarchy L \<and> l_sorts (exec flt c L) = l_sorts L"
  using assms
  by (cases c)
     (simp_all add: variable_def constant_lang_def predicate_def function_lang_def
       register_operator_handler_def is_strict_subtype_def is_subtype_def
       are_vertically_related_def split_beta Let_def split: sum.splits option.splits)

lemma exec_keeps_acyclic:
  assumes reg: "registered_hierarchy L" and ac: "acyclic (l_sort_hierarchy L)"
    and c: "registering L c"
  shows "acyclic (l_sort_hierarchy (exec flt c L)) \<and> registered_hierarchy (exec flt c L)"
proof (cases c)
  case (Sort_call name supers)
  with c show ?thesis using sort_lang_keeps_acyclic [OF reg ac, of supers name] by simp
next
  case (Set_parent_call lhs rhs)
  with c show ?thesis by simp
qed (use reg ac exec_keeps_hierarchy [of c flt L] in \<open>simp_all add: registered_hierarchy_def has_sort_def\<close>)

lemma run_keeps_acyclic:
  "registered_hierarchy L \<Longrightarrow> acyclic (l_sort_hierarchy L) \<Longrightarrow> registering_all flt L calls \<Longrightarrow>
     acyclic (l_sort_hierarchy (run flt calls L)) \<and> registered_hierarchy (run flt calls L)"
  unfolding run_def
proof (induction calls arbitrary: L)
  case Nil
  then show ?case by simp
next
  case (Cons c calls)
  from Cons.prems have "acyclic (l_sort_hierarchy (exec flt c L)) \<and> registered_hierarchy (exec flt c L)"
    using exec_keeps_acyclic [of L c] by simp
  with Cons.prems show ?case using Cons.IH [of "exec flt c L"] by simp
qed

text \<open>
  C4, as amended. \<open>set_parent\<close> raises \<open>LanguageError\<close> exactly when the parent belongs to
  another language; otherwise it returns and the edge is in the hierarchy, whether or not
  it closes a cycle. The hierarchy of a new language is acyclic, and it is acyclic after
  any sequence of calls that are no direct \<open>set_parent\<close> and whose sort registrations name
  registered sorts as parents.
\<close>

theorem hierarchy_acyclic:
  "(fst (set_parent L lhs rhs) = Inl LanguageError \<longleftrightarrow> slanguage rhs \<noteq> l_id L) \<and>
   (slanguage rhs = l_id L \<longrightarrow>
      fst (set_parent L lhs rhs) = Inr () \<and>
      l_sort_hierarchy (snd (set_parent L lhs rhs))
        = insert (sname lhs, sname rhs) (l_sort_hierarchy L)) \<and>
   (registering_all flt (new_language i nm) calls \<longrightarrow>
      acyclic (l_sort_hierarchy (run flt calls (new_language i nm))))"
  using run_keeps_acyclic [OF new_language_registered new_language_acyclic, of flt i nm calls]
  by (simp add: set_parent_result set_parent_hierarchy)

theorem hierarchy_acyclic_witness:
  "\<forall>flt.
     fst (set_parent (new_language 1 ''L'' :: int Language) (plain_sort ''a'' 1) (the_reals 2))
       = Inl LanguageError \<and>
     fst (set_parent (new_language 1 ''L'' :: int Language) (the_object 1) (the_nats 1)) = Inr () \<and>
     acyclic (l_sort_hierarchy
       (run flt [Sort_call ''a'' None, Sort_call ''b'' (Some [plain_sort ''a'' 1, the_ints 1]),
             Predicate_call ''p'' [ByName ''b'']]
          (new_language 1 ''L'' :: int Language)))"
  (is "\<forall>flt. ?P flt")
proof
  fix flt :: "pyval \<Rightarrow> pyval option"
  have h1: "slanguage (the_reals 2) \<noteq> l_id (new_language 1 ''L'' :: int Language)"
    by (simp add: new_language_fields the_reals_def)
  have h2: "slanguage (the_nats 1) = l_id (new_language 1 ''L'' :: int Language)"
    by (simp add: new_language_fields the_nats_def)
  have h3: "registering_all flt (new_language 1 ''L'' :: int Language)
      [Sort_call ''a'' None, Sort_call ''b'' (Some [plain_sort ''a'' 1, the_ints 1]),
       Predicate_call ''p'' [ByName ''b'']]"
    by (simp add: sort_lang_sorts new_language_fields the_ints_def)
  from h1 h2 h3 show "?P flt"
    using hierarchy_acyclic [of "new_language 1 ''L'' :: int Language" "plain_sort ''a'' 1"
        "the_reals 2" flt 1 "''L''" "[]"]
      hierarchy_acyclic [of "new_language 1 ''L'' :: int Language" "the_object 1"
        "the_nats 1" flt 1 "''L''"
        "[Sort_call ''a'' None, Sort_call ''b'' (Some [plain_sort ''a'' 1, the_ints 1]),
          Predicate_call ''p'' [ByName ''b'']]"]
    by blast
qed

text \<open>
  C4 as stated fails: on a new language \<open>set_parent(Object, Natural)\<close> closes the cycle
  \<open>object\<close>, \<open>Natural\<close>, \<open>Integer\<close>, \<open>Real\<close>, \<open>object\<close>; it returns, and the hierarchy
  then has that cycle.
\<close>

theorem hierarchy_acyclic_counterexample:
  "fst (set_parent (new_language 1 ''L'' :: int Language) (the_object 1) (the_nats 1)) = Inr () \<and>
   \<not> acyclic (l_sort_hierarchy
     (snd (set_parent (new_language 1 ''L'' :: int Language) (the_object 1) (the_nats 1))))"
proof -
  let ?H = "l_sort_hierarchy
     (snd (set_parent (new_language 1 ''L'' :: int Language) (the_object 1) (the_nats 1)))"
  have H: "?H = {(''object'', ''Natural''), (''Real'', ''object''), (''Integer'', ''Real''),
      (''Natural'', ''Integer'')}"
    by (simp add: set_parent_hierarchy new_language_fields the_nats_def the_object_def)
  have "(''object'', ''Natural'') \<in> ?H\<^sup>+" unfolding H by blast
  also have "(''Natural'', ''Integer'') \<in> ?H" unfolding H by blast
  also have "(''Integer'', ''Real'') \<in> ?H" unfolding H by blast
  also have "(''Real'', ''object'') \<in> ?H" unfolding H by blast
  finally have "(''object'', ''object'') \<in> ?H\<^sup>+" .
  then have "\<not> acyclic ?H" by (auto simp: acyclic_def)
  moreover have "fst (set_parent (new_language 1 ''L'' :: int Language) (the_object 1) (the_nats 1))
      = Inr ()"
    by (simp add: set_parent_result new_language_fields the_nats_def)
  ultimately show ?thesis by simp
qed

section \<open>Registrations that keep the language when they raise\<close>

lemma duplicate_sort_unchanged:
  "l_sorts L name = Some existing \<Longrightarrow>
     sort_lang L name supers = (Inl (DuplicateSortDefinition name existing), L)"
  by (simp add: sort_lang_def)

lemma failed_predicate_unchanged:
  "fst (predicate L name args) = Inl e \<Longrightarrow> snd (predicate L name args) = L"
  by (auto simp: predicate_def Let_def split: option.splits sum.splits)

lemma failed_function_unchanged:
  "fst (function_lang L name args) = Inl e \<Longrightarrow> snd (function_lang L name args) = L"
  by (auto simp: function_lang_def Let_def split: option.splits sum.splits)

lemma failed_constant_unchanged:
  "fst (constant_lang flt L name srt) = Inl e \<Longrightarrow> snd (constant_lang flt L name srt) = L"
  by (auto simp: constant_lang_def Let_def split: option.splits sum.splits if_splits)

section \<open>Registrations that return\<close>

lemma set_parents_returned:
  "fst (set_parents L s ps) = Inr u \<Longrightarrow> p \<in> set ps \<Longrightarrow>
     p \<in> promotion_set (snd (set_parents L s ps)) (sname s)"
proof (induction ps arbitrary: L)
  case Nil
  then show ?case by simp
next
  case (Cons q ps)
  obtain r L' where sp: "set_parent L s q = (r, L')" by (cases "set_parent L s q")
  with Cons.prems(1) have r: "r = Inr ()" by (cases r) simp_all
  with sp have ok: "slanguage q = l_id L"
    using set_parent_result [of L s q] by (simp split: if_splits)
  have q: "q \<in> promotion_set L' (sname s)"
    using set_parent_promotion_set [of L s q "sname s"] ok by (simp add: sp)
  have rest: "fst (set_parents L' s ps) = Inr u"
    using Cons.prems(1) by (simp add: sp r)
  show ?case
  proof (cases "p = q")
    case True
    with q show ?thesis
      using set_parents_promotion_mono [of L' "sname s" s ps] by (auto simp: sp r)
  next
    case False
    with Cons.prems(2) have "p \<in> set ps" by simp
    from Cons.IH [OF rest this] show ?thesis by (simp add: sp r)
  qed
qed

lemma returned_sort_below_object:
  assumes ob: "l_sorts L ''object'' = Some ob"
    and ok: "fst (sort_lang L name supers) = Inr s"
  shows "s = plain_sort name (l_id L) \<and>
         ob \<in> promotion_set (snd (sort_lang L name supers)) name \<and>
         fst (is_subtype (snd (sort_lang L name supers)) s ob)"
proof -
  from ok have fresh: "l_sorts L name = None"
    by (cases "l_sorts L name") (simp_all add: sort_lang_def)
  with ob have ne: "name \<noteq> ''object''" by auto
  let ?xs = "case supers of None \<Rightarrow> [] | Some xs \<Rightarrow> xs"
  let ?s = "plain_sort name (l_id L)"
  let ?L1 = "L\<lparr>l_sorts := (l_sorts L)(name \<mapsto> ?s)\<rparr>"
  let ?ys = "if ob \<in> set ?xs then ?xs else ?xs @ [ob]"
  have res: "sort_lang L name supers =
      (case set_parents ?L1 ?s ?ys of (Inl e, L2) \<Rightarrow> (Inl e, L2) | (Inr u, L2) \<Rightarrow> (Inr ?s, L2))"
    using fresh ob ne by (simp add: sort_lang_def get_sort_def Let_def del: set_parents.simps)
  obtain r L2 where sp: "set_parents ?L1 ?s ?ys = (r, L2)" by (cases "set_parents ?L1 ?s ?ys")
  from ok res sp have r: "r = Inr ()" and s: "s = ?s" by (cases r; simp)+
  have "ob \<in> set ?ys" by simp
  with set_parents_returned [of ?L1 ?s ?ys "()" ob] sp r
  have "ob \<in> promotion_set L2 name" by simp
  moreover have "snd (sort_lang L name supers) = L2" using res sp r by simp
  ultimately show ?thesis using s
    by (simp add: is_subtype_def is_strict_subtype_fst)
qed

section \<open>What the subtype queries write\<close>

lemma is_strict_subtype_snd:
  "snd (is_strict_subtype L t st) =
     (case l_possible_promotions L (sname t) of
        Some S \<Rightarrow> L
      | None \<Rightarrow> L\<lparr>l_possible_promotions := (l_possible_promotions L)(sname t \<mapsto> {})\<rparr>)"
  by (simp add: is_strict_subtype_def possible_promotions_getitem_def split: option.splits)

lemma is_strict_subtype_known_key:
  "l_possible_promotions L (sname t) = Some S \<Longrightarrow> snd (is_strict_subtype L t st) = L"
  by (simp add: is_strict_subtype_snd)

end
